theory Spec2Isabelle
  imports Main "HOL-Library.Sublist"
begin

section \<open>Python values and exceptions\<close>

text \<open>
  The exceptions the modelled functions can raise. Each carries its message, the
  text that \<^verbatim>\<open>str(e)\<close> yields; \<open>KeyError\<close> carries the missing key, which
  \<^verbatim>\<open>str(e)\<close> puts between quotes.
\<close>

datatype py_error =
    KeyError string
  | ValueError string
  | TypeError string
  | IndexError string
  | Exception string

fun exception_str :: "py_error \<Rightarrow> string" where
  "exception_str (KeyError k) = CHR 0x27 # k @ [CHR 0x27]"
| "exception_str (ValueError m) = m"
| "exception_str (TypeError m) = m"
| "exception_str (IndexError m) = m"
| "exception_str (Exception m) = m"

text \<open>
  A key of a dictionary obtained from JSON is absent, present with the value
  \<^verbatim>\<open>null\<close> (Python \<^verbatim>\<open>None\<close>), or present with a value. The two
  first cases differ for \<^verbatim>\<open>d.get(k, default)\<close>, which returns the default only
  when the key is absent.
\<close>

datatype 'a field = Absent | Null | Val 'a

text \<open>
  The Python values that reach the result shaper: \<^verbatim>\<open>None\<close>, integers, strings,
  tuples, lists and dictionaries with string keys (in insertion order). Floats and
  byte strings are not modelled. On these values Python's \<^verbatim>\<open>==\<close> is structural
  equality.
\<close>

datatype pyval =
    PNone
  | PInt int
  | PStr string
  | PTuple "pyval list"
  | PList "pyval list"
  | PDict "(string \<times> pyval) list"

text \<open>\<^verbatim>\<open>str(n)\<close> for a Python integer: decimal digits, a minus sign when negative.\<close>

definition digit_char :: "nat \<Rightarrow> char" where
  "digit_char d = ''0123456789'' ! d"

fun str_nat :: "nat \<Rightarrow> string" where
  "str_nat n = (if n < 10 then [digit_char n] else str_nat (n div 10) @ [digit_char (n mod 10)])"

declare str_nat.simps [simp del]

definition str_int :: "int \<Rightarrow> string" where
  "str_int i = (if i < 0 then CHR ''-'' # str_nat (nat (- i)) else str_nat (nat i))"

text \<open>\<^verbatim>\<open>sep.join(xs)\<close>\<close>

fun join :: "string \<Rightarrow> string list \<Rightarrow> string" where
  "join sep [] = []"
| "join sep [x] = x"
| "join sep (x # y # ys) = x @ sep @ join sep (y # ys)"

section \<open>The structured query format (agents/sql\_agent.py)\<close>

text \<open>
  \<^verbatim>\<open>WhereClause\<close> and \<^verbatim>\<open>QueryStructure\<close> are typed dictionaries. The
  \<^verbatim>\<open>Literal\<close> types are enumerations; \<open>operator_str\<close>, \<open>direction_str\<close> give
  the string each member stands for. The structure is the dictionary that
  \<^verbatim>\<open>json.loads\<close> returned, so each key can be missing: for \<open>table\<close> and
  \<open>columns\<close>, whose declared type is not \<^verbatim>\<open>Optional\<close>, \<open>None\<close> is the
  missing key; for the \<^verbatim>\<open>Optional\<close> ones the field is \<open>Absent\<close>, \<open>Null\<close>
  or \<open>Val v\<close>. The value of \<open>operation\<close> is only ever compared with
  \<^verbatim>\<open>"COUNT"\<close> and nothing checks it, so it is kept as what JSON gave: a missing
  key, \<^verbatim>\<open>null\<close> or any string.
  The keys \<^verbatim>\<open>where\<close> and \<^verbatim>\<open>value\<close> are reserved words here and are named
  \<open>where_clauses\<close> and \<open>clause_value\<close>.
\<close>

datatype operator = Eq | Gt | Lt | Ge | Le | LIKE | Ne

fun operator_str :: "operator \<Rightarrow> string" where
  "operator_str Eq = ''=''"
| "operator_str Gt = ''>''"
| "operator_str Lt = ''<''"
| "operator_str Ge = ''>=''"
| "operator_str Le = ''<=''"
| "operator_str LIKE = ''LIKE''"
| "operator_str Ne = ''!=''"

datatype direction = ASC | DESC

fun direction_str :: "direction \<Rightarrow> string" where
  "direction_str ASC = ''ASC''"
| "direction_str DESC = ''DESC''"

record where_clause =
  column :: string
  operator :: operator
  clause_value :: string

record query_structure =
  operation :: "string field"
  table :: "string option"
  columns :: "string list option"
  where_clauses :: "where_clause list field"
  order_by :: "string field"
  order_direction :: "direction field"
  limit :: "int field"

subsection \<open>The SQL builder\<close>

text \<open>
  \<^verbatim>\<open>build_sql_from_structure\<close>. \<^verbatim>\<open>structure["k"]\<close> raises \<open>KeyError\<close> on a
  missing key; \<^verbatim>\<open>structure.get("k")\<close> is falsy for a missing key, for
  \<^verbatim>\<open>None\<close>, for an empty list, an empty string and the integer 0.
  \<^verbatim>\<open>structure.get("order_direction", "ASC")\<close> is \<^verbatim>\<open>"ASC"\<close> only for a missing
  key; a key present with \<^verbatim>\<open>None\<close> is formatted as the text \<^verbatim>\<open>None\<close>.
\<close>

definition select_clause :: "query_structure \<Rightarrow> string field \<Rightarrow> py_error + string" where
  "select_clause structure opn =
     (if opn = Val ''COUNT'' then Inr ''SELECT COUNT(*)''
      else (case columns structure of
              None \<Rightarrow> Inl (KeyError ''columns'')
            | Some cs \<Rightarrow>
                (let cols = map (\<lambda>col. if CHR '' '' \<in> set col
                                        then CHR 0x22 # col @ [CHR 0x22] else col) cs
                 in if cols \<noteq> [] then Inr (''SELECT '' @ join '', '' cols)
                    else Inr ''SELECT *'')))"

definition add_where :: "query_structure \<Rightarrow> string \<Rightarrow> string" where
  "add_where structure sql =
     (case where_clauses structure of
        Val (w # ws) \<Rightarrow>
          (let where_parts =
                 map (\<lambda>clause.
                        (if CHR '' '' \<in> set (column clause)
                         then CHR 0x22 # column clause @ [CHR 0x22] else column clause)
                        @ '' '' @ operator_str (operator clause)
                        @ '' '' @ (CHR 0x27 # clause_value clause @ [CHR 0x27]))
                     (w # ws)
           in sql @ '' WHERE '' @ join '' AND '' where_parts)
      | _ \<Rightarrow> sql)"

definition add_order_by :: "query_structure \<Rightarrow> string \<Rightarrow> string" where
  "add_order_by structure sql =
     (case order_by structure of
        Val (c # cs) \<Rightarrow>
          (let col = c # cs;
               col = (if CHR '' '' \<in> set col then CHR 0x22 # col @ [CHR 0x22] else col);
               direction = (case order_direction structure of
                              Absent \<Rightarrow> ''ASC''
                            | Null \<Rightarrow> ''None''
                            | Val d \<Rightarrow> direction_str d)
           in sql @ '' ORDER BY '' @ col @ '' '' @ direction)
      | _ \<Rightarrow> sql)"

definition add_limit :: "query_structure \<Rightarrow> string field \<Rightarrow> string \<Rightarrow> string" where
  "add_limit structure opn sql =
     (case limit structure of
        Val n \<Rightarrow> (if n \<noteq> 0 \<and> opn \<noteq> Val ''COUNT''
                  then sql @ '' LIMIT '' @ str_int n else sql)
      | _ \<Rightarrow> sql)"

definition build_sql_from_structure :: "query_structure \<Rightarrow> py_error + string" where
  "build_sql_from_structure structure =
     (case operation structure of
        Absent \<Rightarrow> Inl (KeyError ''operation'')
      | opn \<Rightarrow>
          (case select_clause structure opn of
             Inl e \<Rightarrow> Inl e
           | Inr sql \<Rightarrow>
               (case table structure of
                  None \<Rightarrow> Inl (KeyError ''table'')
                | Some t \<Rightarrow>
                    Inr (add_limit structure opn
                          (add_order_by structure
                            (add_where structure (sql @ '' FROM '' @ t)))))))"

subsection \<open>Validation of the proposed structure\<close>

text \<open>
  \<^verbatim>\<open>generate_structure_node\<close>, from the point where the model's answer has been
  handed to \<^verbatim>\<open>json.loads\<close>. The language model and the JSON parser are outside
  the repository: \<open>parsed\<close> is what \<^verbatim>\<open>json.loads(json_str)\<close> did, \<open>Inl e\<close> when it
  raised \<^verbatim>\<open>JSONDecodeError\<close> with text \<open>e\<close>, \<open>Inr structure\<close> when it returned
  a dictionary. \<open>selected_table\<close> and \<open>available_columns\<close> are
  \<^verbatim>\<open>state["selected_table"]\<close> and \<^verbatim>\<open>state["columns"]\<close>. The result is the
  \<^verbatim>\<open>query_structure\<close> entry of the returned state update (the
  \<^verbatim>\<open>messages\<close> entry, a rendering of the same structure, is left out).
  The three messages start with the UTF-8 bytes of the cross mark U+274C.
\<close>

definition cross_mark :: string where
  "cross_mark = [CHR 0xE2, CHR 0x9D, CHR 0x8C]"

definition available_line :: "string list \<Rightarrow> string" where
  "available_line available_columns =
     CHR 0x0A # ''Available columns: '' @ join '', '' available_columns"

definition not_found_in_table :: "string \<Rightarrow> string list \<Rightarrow> string" where
  "not_found_in_table col available_columns =
     cross_mark @ '' Column '' @ [CHR 0x27] @ col @ [CHR 0x27] @ '' not found in table.''
       @ available_line available_columns"

definition not_found_in_where :: "string \<Rightarrow> string list \<Rightarrow> string" where
  "not_found_in_where col available_columns =
     cross_mark @ '' Column '' @ [CHR 0x27] @ col @ [CHR 0x27] @ '' not found in WHERE clause.''
       @ available_line available_columns"

definition not_found_in_order_by :: "string \<Rightarrow> string list \<Rightarrow> string" where
  "not_found_in_order_by col available_columns =
     cross_mark @ '' Column '' @ [CHR 0x27] @ col @ [CHR 0x27] @ '' not found in ORDER BY.''
       @ available_line available_columns"

definition check_columns :: "query_structure \<Rightarrow> string list \<Rightarrow> py_error option" where
  "check_columns structure available_columns =
     (case columns structure of
        Some (c # cs) \<Rightarrow>
          (case List.find (\<lambda>col. col \<notin> set available_columns) (c # cs) of
             Some col \<Rightarrow> Some (ValueError (not_found_in_table col available_columns))
           | None \<Rightarrow> None)
      | _ \<Rightarrow> None)"

definition check_where :: "query_structure \<Rightarrow> string list \<Rightarrow> py_error option" where
  "check_where structure available_columns =
     (case where_clauses structure of
        Val (w # ws) \<Rightarrow>
          (case List.find (\<lambda>clause. column clause \<notin> set available_columns) (w # ws) of
             Some clause \<Rightarrow>
               Some (ValueError (not_found_in_where (column clause) available_columns))
           | None \<Rightarrow> None)
      | _ \<Rightarrow> None)"

definition check_order_by :: "query_structure \<Rightarrow> string list \<Rightarrow> py_error option" where
  "check_order_by structure available_columns =
     (case order_by structure of
        Val (c # cs) \<Rightarrow>
          (if c # cs \<notin> set available_columns
           then Some (ValueError (not_found_in_order_by (c # cs) available_columns))
           else None)
      | _ \<Rightarrow> None)"

text \<open>\<^verbatim>\<open>if "k" not in structure: structure["k"] = ...\<close>\<close>

definition default_field :: "'a field \<Rightarrow> 'a field" where
  "default_field f = (case f of Absent \<Rightarrow> Null | _ \<Rightarrow> f)"

definition set_defaults :: "query_structure \<Rightarrow> query_structure" where
  "set_defaults structure =
     structure
       \<lparr> operation := (case operation structure of Absent \<Rightarrow> Val ''SELECT'' | opn \<Rightarrow> opn),
         columns := (case columns structure of None \<Rightarrow> Some [] | Some cs \<Rightarrow> Some cs),
         where_clauses := default_field (where_clauses structure),
         order_by := default_field (order_by structure),
         order_direction := default_field (order_direction structure),
         limit := default_field (limit structure) \<rparr>"

definition generate_structure_node ::
  "string \<Rightarrow> string + query_structure \<Rightarrow> string \<Rightarrow> string list \<Rightarrow> py_error + query_structure"
where
  "generate_structure_node json_str parsed selected_table available_columns =
     (case parsed of
        Inl e \<Rightarrow>
          Inl (ValueError (''Failed to parse JSON from LLM: '' @ json_str
                            @ CHR 0x0A # ''Error: '' @ e))
      | Inr structure0 \<Rightarrow>
          (let structure = structure0 \<lparr> table := Some selected_table \<rparr> in
           case check_columns structure available_columns of
             Some e \<Rightarrow> Inl e
           | None \<Rightarrow>
               (case check_where structure available_columns of
                  Some e \<Rightarrow> Inl e
                | None \<Rightarrow>
                    (case check_order_by structure available_columns of
                       Some e \<Rightarrow> Inl e
                     | None \<Rightarrow> Inr (set_defaults structure)))))"

subsection \<open>Building and executing\<close>

text \<open>
  \<^verbatim>\<open>run_sql\<close> (tools/sql\_executor.py). The database handle is a parameter:
  \<open>db_run query\<close> is \<open>Inl m\<close> when \<^verbatim>\<open>db.run(query)\<close> raises an exception whose
  text is \<open>m\<close>, and \<open>Inr r\<close> when it returns the string \<open>r\<close>.
\<close>

definition run_sql :: "(string \<Rightarrow> string + string) \<Rightarrow> string \<Rightarrow> py_error + string" where
  "run_sql db_run query =
     (case db_run query of
        Inl m \<Rightarrow> Inl (Exception (''SQL execution error: '' @ m))
      | Inr r \<Rightarrow> (if r = [] then Inr ''Query returned no results.'' else Inr r))"

text \<open>
  \<^verbatim>\<open>build_and_execute_node\<close>, as a function of \<^verbatim>\<open>state["query_structure"]\<close>.
  The query is built before the \<^verbatim>\<open>try\<close>, so an exception of the builder
  propagates; every exception of \<^verbatim>\<open>run_sql\<close> is caught. The result is the
  returned state update, \<open>messages\<close> holding the content of its one message.
\<close>

record node_update =
  messages :: "string list"
  sql_query :: string
  result :: pyval

definition build_and_execute_node ::
  "(string \<Rightarrow> string + string) \<Rightarrow> query_structure \<Rightarrow> py_error + node_update"
where
  "build_and_execute_node db_run structure =
     (case build_sql_from_structure structure of
        Inl e \<Rightarrow> Inl e
      | Inr sql \<Rightarrow>
          (case run_sql db_run sql of
             Inr r \<Rightarrow>
               Inr \<lparr> messages = [''SQL executed successfully''],
                     sql_query = sql,
                     result = PStr r \<rparr>
           | Inl e \<Rightarrow>
               (let error_msg = ''SQL execution failed: '' @ exception_str e
                in Inr \<lparr> messages = [error_msg],
                         sql_query = sql,
                         result = PDict [(''error'', PStr (exception_str e))] \<rparr>)))"

section \<open>The result shaper (tools/data\_transformer.py)\<close>

text \<open>\<^verbatim>\<open>not x\<close> is true of \<^verbatim>\<open>None\<close>, 0 and every empty container.\<close>

fun truthy :: "pyval \<Rightarrow> bool" where
  "truthy PNone = False"
| "truthy (PInt n) = (n \<noteq> 0)"
| "truthy (PStr s) = (s \<noteq> [])"
| "truthy (PTuple xs) = (xs \<noteq> [])"
| "truthy (PList xs) = (xs \<noteq> [])"
| "truthy (PDict kvs) = (kvs \<noteq> [])"

text \<open>
  \<^verbatim>\<open>list(x)\<close>: the elements of a tuple or list, the one-character strings of a
  string (one per byte here), the keys of a dictionary; \<open>TypeError\<close> otherwise.
\<close>

fun py_list :: "pyval \<Rightarrow> py_error + pyval list" where
  "py_list (PList xs) = Inr xs"
| "py_list (PTuple xs) = Inr xs"
| "py_list (PStr s) = Inr (map (\<lambda>c. PStr [c]) s)"
| "py_list (PDict kvs) = Inr (map (\<lambda>kv. PStr (fst kv)) kvs)"
| "py_list PNone = Inl (TypeError (CHR 0x27 # ''NoneType'' @ CHR 0x27 # '' object is not iterable''))"
| "py_list (PInt n) = Inl (TypeError (CHR 0x27 # ''int'' @ CHR 0x27 # '' object is not iterable''))"

text \<open>\<^verbatim>\<open>x[i]\<close> for an index \<open>i \<ge> 0\<close>.\<close>

fun subscript :: "pyval \<Rightarrow> nat \<Rightarrow> py_error + pyval" where
  "subscript (PTuple xs) i =
     (if i < length xs then Inr (xs ! i) else Inl (IndexError ''tuple index out of range''))"
| "subscript (PList xs) i =
     (if i < length xs then Inr (xs ! i) else Inl (IndexError ''list index out of range''))"
| "subscript (PStr s) i =
     (if i < length s then Inr (PStr [s ! i]) else Inl (IndexError ''string index out of range''))"
| "subscript (PDict kvs) i = Inl (KeyError (str_nat i))"
| "subscript PNone i =
     Inl (TypeError (CHR 0x27 # ''NoneType'' @ CHR 0x27 # '' object is not subscriptable''))"
| "subscript (PInt n) i =
     Inl (TypeError (CHR 0x27 # ''int'' @ CHR 0x27 # '' object is not subscriptable''))"

text \<open>A comprehension whose body can raise: the first exception ends it.\<close>

fun map_raise :: "('a \<Rightarrow> py_error + 'b) \<Rightarrow> 'a list \<Rightarrow> py_error + 'b list" where
  "map_raise f [] = Inr []"
| "map_raise f (x # xs) =
     (case f x of
        Inl e \<Rightarrow> Inl e
      | Inr y \<Rightarrow> (case map_raise f xs of Inl e \<Rightarrow> Inl e | Inr ys \<Rightarrow> Inr (y # ys)))"

text \<open>
  \<^verbatim>\<open>collections.Counter(values)\<close>: a dictionary in insertion order, each element
  counted by \<^verbatim>\<open>mapping[elem] = mapping.get(elem, 0) + 1\<close>. A list or a dictionary
  (also inside a tuple) is unhashable and makes it raise \<open>TypeError\<close>.
\<close>

fun hashable :: "pyval \<Rightarrow> bool" where
  "hashable PNone = True"
| "hashable (PInt n) = True"
| "hashable (PStr s) = True"
| "hashable (PTuple xs) = (\<forall>x \<in> set xs. hashable x)"
| "hashable (PList xs) = False"
| "hashable (PDict kvs) = False"

fun count_element :: "(pyval \<times> nat) list \<Rightarrow> pyval \<Rightarrow> (pyval \<times> nat) list" where
  "count_element [] elem = [(elem, 1)]"
| "count_element ((k, n) # kvs) elem =
     (if k = elem then (k, n + 1) # kvs else (k, n) # count_element kvs elem)"

text \<open>
  The type that the \<open>TypeError\<close> of an unhashable value names: the value's own, or
  for a tuple that of its first unhashable element.
\<close>

fun unhashable_type :: "pyval \<Rightarrow> string"
  and first_unhashable_type :: "pyval list \<Rightarrow> string" where
  "unhashable_type (PList xs) = ''list''"
| "unhashable_type (PDict kvs) = ''dict''"
| "unhashable_type (PTuple xs) = first_unhashable_type xs"
| "unhashable_type PNone = []"
| "unhashable_type (PInt n) = []"
| "unhashable_type (PStr s) = []"
| "first_unhashable_type [] = []"
| "first_unhashable_type (x # xs) =
     (if hashable x then first_unhashable_type xs else unhashable_type x)"

definition Counter :: "pyval list \<Rightarrow> py_error + (pyval \<times> nat) list" where
  "Counter values =
     (if \<forall>v \<in> set values. hashable v then Inr (foldl count_element [] values)
      else Inl (TypeError (''unhashable type: '' @ [CHR 0x27] @ first_unhashable_type values
                             @ [CHR 0x27])))"

text \<open>\<^verbatim>\<open>transform_sql_to_viz_data\<close>; the unused argument \<^verbatim>\<open>query\<close> is left out.\<close>

definition single_column :: "pyval list \<Rightarrow> py_error + pyval" where
  "single_column rows =
     (case map_raise (\<lambda>item. subscript item 0) rows of
        Inl e \<Rightarrow> Inl e
      | Inr values \<Rightarrow>
          (case values of
             [] \<Rightarrow> Inl (IndexError ''list index out of range'')
           | PStr s # vs \<Rightarrow>
               (case Counter values of
                  Inl e \<Rightarrow> Inl e
                | Inr counts \<Rightarrow>
                    Inr (PDict [(''categories'', PList (map fst counts)),
                                (''counts'', PList (map (\<lambda>kv. PInt (int (snd kv))) counts)),
                                (''total'', PInt (int (length values))),
                                (''raw_values'', PList values)]))
           | v # vs \<Rightarrow>
               Inr (PDict [(''values'', PList values),
                           (''total'', PInt (int (length values)))])))"

definition multiple_columns :: "nat \<Rightarrow> pyval list \<Rightarrow> py_error + pyval" where
  "multiple_columns num_cols rows =
     (let column_names = map (\<lambda>i. ''col_'' @ str_nat i) [0 ..< num_cols] in
      case map_raise
             (\<lambda>row. map_raise
                      (\<lambda>i. case subscript row i of
                              Inl e \<Rightarrow> Inl e
                            | Inr v \<Rightarrow> Inr (column_names ! i, v))
                      [0 ..< num_cols])
             rows of
        Inl e \<Rightarrow> Inl e
      | Inr row_dicts \<Rightarrow>
          Inr (PDict [(''rows'', PList (map PDict row_dicts)),
                      (''columns'', PList (map PStr column_names)),
                      (''total_rows'', PInt (int (length row_dicts)))]))"

definition transform_sql_to_viz_data :: "pyval \<Rightarrow> py_error + pyval" where
  "transform_sql_to_viz_data sql_result =
     (if \<not> truthy sql_result then Inr (PList [])
      else case sql_result of
        PDict kvs \<Rightarrow> Inr sql_result
      | _ \<Rightarrow>
          (case py_list sql_result of
             Inl e \<Rightarrow> Inl e
           | Inr rows \<Rightarrow>
               (case rows of
                  [] \<Rightarrow> Inl (IndexError ''list index out of range'')
                | PTuple t # rest \<Rightarrow>
                    (if length t = 1 then single_column rows
                     else multiple_columns (length t) rows)
                | r # rest \<Rightarrow> Inr PNone)))"

section \<open>Notions used to state the properties\<close>

text \<open>
  \<open>columns_known\<close> and \<open>where_known\<close>: every name of the projection list, and
  every column of a predicate, is in the schema. \<open>emitted_identifier\<close> is the form
  in which the builder is claimed to write a column name. \<open>is_whitespace\<close> is
  \<^verbatim>\<open>str.isspace\<close> on the ASCII characters.
\<close>

definition columns_known :: "query_structure \<Rightarrow> string list \<Rightarrow> bool" where
  "columns_known structure available_columns =
     (case columns structure of
        Some cs \<Rightarrow> \<forall>col \<in> set cs. col \<in> set available_columns
      | None \<Rightarrow> True)"

definition where_known :: "query_structure \<Rightarrow> string list \<Rightarrow> bool" where
  "where_known structure available_columns =
     (case where_clauses structure of
        Val ws \<Rightarrow> \<forall>clause \<in> set ws. column clause \<in> set available_columns
      | _ \<Rightarrow> True)"

definition emitted_identifier :: "string \<Rightarrow> string" where
  "emitted_identifier col =
     (if CHR '' '' \<in> set col then CHR 0x22 # col @ [CHR 0x22] else col)"

definition is_whitespace :: "char \<Rightarrow> bool" where
  "is_whitespace c =
     (c \<in> set [CHR 0x09, CHR 0x0A, CHR 0x0B, CHR 0x0C, CHR 0x0D,
                 CHR 0x1C, CHR 0x1D, CHR 0x1E, CHR 0x1F, CHR 0x20])"

text \<open>\<open>first_index xs x\<close> is the position at which \<open>x\<close> first occurs in \<open>xs\<close>.\<close>

definition first_index :: "'a list \<Rightarrow> 'a \<Rightarrow> nat" where
  "first_index xs x = length (takeWhile (\<lambda>y. y \<noteq> x) xs)"

section \<open>Properties of the SQL builder and of validation\<close>

lemmas sql_defs = build_sql_from_structure_def select_clause_def add_where_def
  add_order_by_def add_limit_def

lemmas validation_defs = generate_structure_node_def check_columns_def check_where_def
  check_order_by_def set_defaults_def default_field_def

text \<open>
  C2. The claim is that an unset order direction is compiled as ASC. Validation
  stores \<^verbatim>\<open>None\<close> under a missing \<^verbatim>\<open>order_direction\<close> key, so the default
  of \<^verbatim>\<open>structure.get("order_direction", "ASC")\<close> never applies to a validated
  structure: for the intent below, which orders by \<^verbatim>\<open>Sex\<close> and gives no
  direction, the compiled query ends with \<^verbatim>\<open>ORDER BY Sex None\<close>.
\<close>

theorem null_order_direction_is_rendered_as_None:
  "generate_structure_node []
     (Inr \<lparr> operation = Val ''SELECT'', table = Some ''people'', columns = Some [],
            where_clauses = Null, order_by = Val ''Sex'', order_direction = Absent,
            limit = Null \<rparr>)
     ''people'' [''Index'', ''Sex'']
   = Inr \<lparr> operation = Val ''SELECT'', table = Some ''people'', columns = Some [],
           where_clauses = Null, order_by = Val ''Sex'', order_direction = Null,
           limit = Null \<rparr>
   \<and> build_sql_from_structure
         \<lparr> operation = Val ''SELECT'', table = Some ''people'', columns = Some [],
           where_clauses = Null, order_by = Val ''Sex'', order_direction = Null,
           limit = Null \<rparr>
       = Inr ''SELECT * FROM people ORDER BY Sex None''"
  by (simp add: validation_defs sql_defs)

text \<open>
  C3. The structure that validation returns has the selected table as its
  \<open>table\<close>, and the whole outcome of validation does not depend on the table
  the proposed structure named.
\<close>

theorem validated_table_is_selected_table:
  "(generate_structure_node json_str (Inr structure) selected_table available_columns = Inr s
      \<longrightarrow> table s = Some selected_table)
   \<and> generate_structure_node json_str (Inr (structure\<lparr>table := t\<rparr>))
         selected_table available_columns
       = generate_structure_node json_str (Inr structure) selected_table available_columns"
  by (auto simp add: validation_defs Let_def split: option.splits)

theorem validated_table_is_selected_table_witness:
  "table (projr (generate_structure_node []
     (Inr \<lparr> operation = Val ''COUNT'', table = Some ''employees'', columns = Some [],
            where_clauses = Null, order_by = Null, order_direction = Null,
            limit = Null \<rparr>)
     ''people'' [''Index'', ''Sex''])) = Some ''people''"
proof -
  let ?raw = "\<lparr> operation = Val ''COUNT'', table = Some ''employees'', columns = Some [],
            where_clauses = Null, order_by = Null, order_direction = Null,
            limit = Null \<rparr>"
  have "\<exists>s. generate_structure_node [] (Inr ?raw) ''people'' [''Index'', ''Sex''] = Inr s"
    by (simp add: validation_defs)
  then obtain s where s: "generate_structure_node [] (Inr ?raw) ''people'' [''Index'', ''Sex''] = Inr s"
    by blast
  with validated_table_is_selected_table [of "[]" ?raw "''people''" "[''Index'', ''Sex'']" s]
  have "table s = Some ''people''" by blast
  with s show ?thesis by simp
qed

text \<open>
  C9. When the query has been built and its execution raises, the node raises
  nothing: it returns an update whose \<open>result\<close> is the dictionary
  \<^verbatim>\<open>{"error": ...}\<close> holding the executor's message (which ends with the
  database's own message) and whose \<open>sql_query\<close> is the query that was tried.
\<close>

theorem execution_failure_is_returned_with_query:
  "build_sql_from_structure structure = Inr sql \<Longrightarrow> db_run sql = Inl m \<Longrightarrow>
   build_and_execute_node db_run structure =
     Inr \<lparr> messages = [''SQL execution failed: SQL execution error: '' @ m],
           sql_query = sql,
           result = PDict [(''error'', PStr (''SQL execution error: '' @ m))] \<rparr>"
  by (simp add: build_and_execute_node_def run_sql_def)

theorem execution_failure_is_returned_with_query_witness:
  "build_and_execute_node (\<lambda>q. Inl ''no such table: people'')
     \<lparr> operation = Val ''COUNT'', table = Some ''people'', columns = Some [],
       where_clauses = Null, order_by = Null, order_direction = Null, limit = Null \<rparr>
   = Inr \<lparr> messages = [''SQL execution failed: SQL execution error: no such table: people''],
           sql_query = ''SELECT COUNT(*) FROM people'',
           result = PDict [(''error'', PStr ''SQL execution error: no such table: people'')] \<rparr>"
proof -
  let ?s = "\<lparr> operation = Val ''COUNT'', table = Some ''people'', columns = Some [],
       where_clauses = Null, order_by = Null, order_direction = Null, limit = Null \<rparr>"
  have b: "build_sql_from_structure ?s = Inr ''SELECT COUNT(*) FROM people''"
    by (simp add: sql_defs)
  show ?thesis
    using execution_failure_is_returned_with_query
            [of ?s "''SELECT COUNT(*) FROM people''" "\<lambda>q. Inl ''no such table: people''"
                "''no such table: people''", OF b]
    by simp
qed

text \<open>
  C6. The two concrete scenarios: the names of the three oldest people, and the
  number of males. Character 0x22 is the double quote, 0x27 the single quote.
\<close>

theorem compiled_scenarios:
  "build_sql_from_structure
     \<lparr> operation = Val ''SELECT'', table = Some ''people'', columns = Some [''First Name''],
       where_clauses = Absent, order_by = Val ''Date of birth'', order_direction = Val ASC,
       limit = Val 3 \<rparr>
   = Inr (''SELECT '' @ [CHR 0x22] @ ''First Name'' @ [CHR 0x22] @ '' FROM people ORDER BY ''
          @ [CHR 0x22] @ ''Date of birth'' @ [CHR 0x22] @ '' ASC LIMIT 3'')
   \<and> build_sql_from_structure
     \<lparr> operation = Val ''COUNT'', table = Some ''people'', columns = None,
       where_clauses = Val [\<lparr> column = ''Sex'', operator = Eq, clause_value = ''Male'' \<rparr>],
       order_by = Absent, order_direction = Absent, limit = Absent \<rparr>
   = Inr (''SELECT COUNT(*) FROM people WHERE Sex = '' @ [CHR 0x27] @ ''Male'' @ [CHR 0x27])"
  by (simp add: sql_defs str_int_def str_nat.simps digit_char_def)

lemma find_first_violation:
  "\<forall>x \<in> set pre. \<not> P x \<Longrightarrow> P bad \<Longrightarrow> List.find P (pre @ bad # post) = Some bad"
  by (induction pre) auto

lemma find_no_violation: "\<forall>x \<in> set xs. \<not> P x \<Longrightarrow> List.find P xs = None"
  by (induction xs) auto

lemma check_columns_known:
  "columns_known structure available_columns \<Longrightarrow>
   check_columns (structure\<lparr>table := t\<rparr>) available_columns = None"
  by (auto simp add: columns_known_def check_columns_def find_no_violation
        split: option.splits list.splits)

lemma check_where_known:
  "where_known structure available_columns \<Longrightarrow>
   check_where (structure\<lparr>table := t\<rparr>) available_columns = None"
  by (auto simp add: where_known_def check_where_def find_no_violation
        split: option.splits list.splits field.splits)

lemma check_columns_first:
  assumes "columns structure = Some (pre @ bad # post)"
    and "\<forall>col \<in> set pre. col \<in> set available_columns"
    and "bad \<notin> set available_columns"
  shows "check_columns (structure\<lparr>table := t\<rparr>) available_columns
         = Some (ValueError (not_found_in_table bad available_columns))"
proof -
  have f: "List.find (\<lambda>col. col \<notin> set available_columns) (pre @ bad # post) = Some bad"
    using assms(2,3) by (intro find_first_violation) auto
  obtain c cs where l: "pre @ bad # post = c # cs" by (cases "pre @ bad # post") auto
  show ?thesis using assms(1) f l by (simp add: check_columns_def)
qed

lemma check_where_first:
  assumes "where_clauses structure = Val (pre @ w # post)"
    and "\<forall>clause \<in> set pre. column clause \<in> set available_columns"
    and "column w \<notin> set available_columns"
  shows "check_where (structure\<lparr>table := t\<rparr>) available_columns
         = Some (ValueError (not_found_in_where (column w) available_columns))"
proof -
  have f: "List.find (\<lambda>clause. column clause \<notin> set available_columns) (pre @ w # post) = Some w"
    using assms(2,3) by (intro find_first_violation) auto
  obtain c cs where l: "pre @ w # post = c # cs" by (cases "pre @ w # post") auto
  show ?thesis using assms(1) f l by (simp add: check_where_def)
qed

text \<open>
  C4, as amended. Validation fails with a \<open>ValueError\<close> on the first name of the
  projection list that is not in the schema; if there is none, on the column of the
  first predicate that is not in the schema; if there is none either, on a non-empty
  \<open>order_by\<close> that is not in the schema. The message names the offending column
  and says \<^verbatim>\<open>not found in table\<close>, \<^verbatim>\<open>not found in WHERE clause\<close> or
  \<^verbatim>\<open>not found in ORDER BY\<close>, three texts that differ for one and the same name.
\<close>

theorem unknown_column_is_rejected:
  "(columns structure = Some (pre @ bad # post)
      \<and> (\<forall>col \<in> set pre. col \<in> set available_columns)
      \<and> bad \<notin> set available_columns \<longrightarrow>
    generate_structure_node json_str (Inr structure) selected_table available_columns
      = Inl (ValueError (not_found_in_table bad available_columns)))
   \<and> (columns_known structure available_columns
      \<and> where_clauses structure = Val (wpre @ w # wpost)
      \<and> (\<forall>clause \<in> set wpre. column clause \<in> set available_columns)
      \<and> column w \<notin> set available_columns \<longrightarrow>
    generate_structure_node json_str (Inr structure) selected_table available_columns
      = Inl (ValueError (not_found_in_where (column w) available_columns)))
   \<and> (columns_known structure available_columns
      \<and> where_known structure available_columns
      \<and> order_by structure = Val col \<and> col \<noteq> [] \<and> col \<notin> set available_columns \<longrightarrow>
    generate_structure_node json_str (Inr structure) selected_table available_columns
      = Inl (ValueError (not_found_in_order_by col available_columns)))
   \<and> not_found_in_table name available_columns \<noteq> not_found_in_where name available_columns
   \<and> not_found_in_table name available_columns \<noteq> not_found_in_order_by name available_columns
   \<and> not_found_in_where name available_columns \<noteq> not_found_in_order_by name available_columns"
proof (intro conjI impI)
  assume "columns structure = Some (pre @ bad # post)
      \<and> (\<forall>col \<in> set pre. col \<in> set available_columns)
      \<and> bad \<notin> set available_columns"
  then show "generate_structure_node json_str (Inr structure) selected_table available_columns
      = Inl (ValueError (not_found_in_table bad available_columns))"
    by (simp add: generate_structure_node_def check_columns_first)
next
  assume "columns_known structure available_columns
      \<and> where_clauses structure = Val (wpre @ w # wpost)
      \<and> (\<forall>clause \<in> set wpre. column clause \<in> set available_columns)
      \<and> column w \<notin> set available_columns"
  then show "generate_structure_node json_str (Inr structure) selected_table available_columns
      = Inl (ValueError (not_found_in_where (column w) available_columns))"
    by (simp add: generate_structure_node_def check_columns_known check_where_first)
next
  assume a: "columns_known structure available_columns
      \<and> where_known structure available_columns
      \<and> order_by structure = Val col \<and> col \<noteq> [] \<and> col \<notin> set available_columns"
  then obtain c cs where "col = c # cs" by (cases col) auto
  with a show "generate_structure_node json_str (Inr structure) selected_table available_columns
      = Inl (ValueError (not_found_in_order_by col available_columns))"
    by (simp add: generate_structure_node_def check_columns_known check_where_known
          check_order_by_def)
qed (simp_all add: not_found_in_table_def not_found_in_where_def not_found_in_order_by_def)

theorem unknown_column_is_rejected_witness:
  "generate_structure_node []
     (Inr \<lparr> operation = Val ''SELECT'', table = Some ''people'',
            columns = Some [''Sex'', ''Gender'', ''Age''],
            where_clauses = Null, order_by = Null, order_direction = Null, limit = Null \<rparr>)
     ''people'' [''Index'', ''Sex'']
   = Inl (ValueError (not_found_in_table ''Gender'' [''Index'', ''Sex'']))
   \<and> generate_structure_node []
     (Inr \<lparr> operation = Val ''COUNT'', table = Some ''people'', columns = Some [],
            where_clauses = Val [\<lparr> column = ''Gender'', operator = Eq, clause_value = ''Male'' \<rparr>],
            order_by = Val ''Age'', order_direction = Null, limit = Null \<rparr>)
     ''people'' [''Index'', ''Sex'']
   = Inl (ValueError (not_found_in_where ''Gender'' [''Index'', ''Sex'']))
   \<and> generate_structure_node []
     (Inr \<lparr> operation = Val ''SELECT'', table = Some ''people'', columns = Some [''Sex''],
            where_clauses = Val [\<lparr> column = ''Sex'', operator = Eq, clause_value = ''Male'' \<rparr>],
            order_by = Val ''Age'', order_direction = Null, limit = Null \<rparr>)
     ''people'' [''Index'', ''Sex'']
   = Inl (ValueError (not_found_in_order_by ''Age'' [''Index'', ''Sex'']))"
proof -
  let ?a = "[''Index'', ''Sex'']"
  let ?s1 = "\<lparr> operation = Val ''SELECT'', table = Some ''people'',
            columns = Some [''Sex'', ''Gender'', ''Age''],
            where_clauses = Null, order_by = Null, order_direction = Null, limit = Null \<rparr>"
  let ?w = "\<lparr> column = ''Gender'', operator = Eq, clause_value = ''Male'' \<rparr>"
  let ?s2 = "\<lparr> operation = Val ''COUNT'', table = Some ''people'', columns = Some [],
            where_clauses = Val [?w],
            order_by = Val ''Age'', order_direction = Null, limit = Null \<rparr>"
  let ?s3 = "\<lparr> operation = Val ''SELECT'', table = Some ''people'', columns = Some [''Sex''],
            where_clauses = Val [\<lparr> column = ''Sex'', operator = Eq, clause_value = ''Male'' \<rparr>],
            order_by = Val ''Age'', order_direction = Null, limit = Null \<rparr>"
  have 1: "generate_structure_node [] (Inr ?s1) ''people'' ?a
           = Inl (ValueError (not_found_in_table ''Gender'' ?a))"
    using unknown_column_is_rejected
            [of ?s1 "[''Sex'']" "''Gender''" "[''Age'']" ?a "[]" "''people''",
             THEN conjunct1]
    by simp
  have 2: "generate_structure_node [] (Inr ?s2) ''people'' ?a
           = Inl (ValueError (not_found_in_where ''Gender'' ?a))"
    using unknown_column_is_rejected
            [of ?s2 _ _ _ ?a "[]" "''people''" "[]" ?w "[]",
             THEN conjunct2, THEN conjunct1]
    by (simp add: columns_known_def)
  have 3: "generate_structure_node [] (Inr ?s3) ''people'' ?a
           = Inl (ValueError (not_found_in_order_by ''Age'' ?a))"
    using unknown_column_is_rejected
            [of ?s3 _ _ _ ?a "[]" "''people''" _ _ _ "''Age''",
             THEN conjunct2, THEN conjunct2, THEN conjunct1]
    by (simp add: columns_known_def where_known_def)
  from 1 2 3 show ?thesis by simp
qed

text \<open>
  C4 as stated fails for an \<open>order_by\<close> that is the empty string:
  \<^verbatim>\<open>if structure.get("order_by")\<close> takes it for unset, so it is not checked
  against the schema and validation succeeds.
\<close>

theorem empty_order_by_passes_validation:
  "[] \<notin> set [''Index'', ''Sex'']
   \<and> generate_structure_node []
     (Inr \<lparr> operation = Val ''SELECT'', table = Some ''people'', columns = Some [],
            where_clauses = Null, order_by = Val [], order_direction = Null, limit = Null \<rparr>)
     ''people'' [''Index'', ''Sex'']
   = Inr \<lparr> operation = Val ''SELECT'', table = Some ''people'', columns = Some [],
           where_clauses = Null, order_by = Val [], order_direction = Null, limit = Null \<rparr>"
  by (simp add: validation_defs)

lemma emitted_identifier_fold:
  "(\<lambda>col. if CHR '' '' \<in> set col then CHR 0x22 # col @ [CHR 0x22] else col)
   = emitted_identifier"
  by (rule ext) (simp add: emitted_identifier_def)

lemma select_clause_emitted:
  "opn \<noteq> Val ''COUNT'' \<Longrightarrow> columns structure = Some cs \<Longrightarrow>
   select_clause structure opn =
     Inr (if cs = [] then ''SELECT *''
          else ''SELECT '' @ join '', '' (map emitted_identifier cs))"
  by (simp add: select_clause_def emitted_identifier_fold)

lemma add_where_emitted:
  "add_where structure sql =
     sql @ (case where_clauses structure of
              Val (w # ws) \<Rightarrow>
                '' WHERE '' @ join '' AND ''
                  (map (\<lambda>clause. emitted_identifier (column clause)
                                  @ '' '' @ operator_str (operator clause)
                                  @ '' '' @ [CHR 0x27] @ clause_value clause @ [CHR 0x27])
                       (w # ws))
            | _ \<Rightarrow> [])"
proof -
  have f: "(\<lambda>clause. (if CHR '' '' \<in> set (column clause)
                        then CHR 0x22 # column clause @ [CHR 0x22] else column clause)
                      @ '' '' @ operator_str (operator clause)
                      @ '' '' @ (CHR 0x27 # clause_value clause @ [CHR 0x27]))
         = (\<lambda>clause. emitted_identifier (column clause)
                      @ '' '' @ operator_str (operator clause)
                      @ '' '' @ [CHR 0x27] @ clause_value clause @ [CHR 0x27])"
    by (rule ext) (simp add: emitted_identifier_def)
  show ?thesis
    unfolding add_where_def Let_def f
    by (cases "where_clauses structure") (simp_all split: list.splits)
qed

lemma add_order_by_emitted:
  "\<exists>direction.
     add_order_by structure sql =
       sql @ (case order_by structure of
                Val (c # col) \<Rightarrow>
                  '' ORDER BY '' @ emitted_identifier (c # col) @ '' '' @ direction
              | _ \<Rightarrow> [])"
proof -
  let ?d = "case order_direction structure of
              Absent \<Rightarrow> ''ASC'' | Null \<Rightarrow> ''None'' | Val d \<Rightarrow> direction_str d"
  have "add_order_by structure sql =
       sql @ (case order_by structure of
                Val (c # col) \<Rightarrow>
                  '' ORDER BY '' @ emitted_identifier (c # col) @ '' '' @ ?d
              | _ \<Rightarrow> [])"
    unfolding add_order_by_def Let_def emitted_identifier_def
    by (cases "order_by structure") (simp_all split: list.splits)
  then show ?thesis by blast
qed

lemma add_limit_emitted:
  "add_limit structure opn sql =
     sql @ (case limit structure of
              Val n \<Rightarrow> if n \<noteq> 0 \<and> opn \<noteq> Val ''COUNT'' then '' LIMIT '' @ str_int n else []
            | _ \<Rightarrow> [])"
  by (cases "limit structure") (simp_all add: add_limit_def)

text \<open>
  C5, as amended. Every column name in the compiled query (projection list, WHERE
  predicates, ORDER BY) is written by \<open>emitted_identifier\<close>: between double quotes
  if and only if it contains the space character, unchanged otherwise. The table
  name follows \<^verbatim>\<open>FROM\<close> unchanged.
\<close>

theorem identifiers_quoted_iff_space:
  "(operation structure = opn \<and> opn \<noteq> Absent \<and> table structure = Some t
      \<and> (opn \<noteq> Val ''COUNT'' \<longrightarrow> columns structure = Some cs) \<longrightarrow>
    (\<exists>direction.
      build_sql_from_structure structure =
        Inr ((if opn = Val ''COUNT'' then ''SELECT COUNT(*)''
              else if cs = [] then ''SELECT *''
              else ''SELECT '' @ join '', '' (map emitted_identifier cs))
             @ '' FROM '' @ t
             @ (case where_clauses structure of
                  Val (w # ws) \<Rightarrow>
                    '' WHERE '' @ join '' AND ''
                      (map (\<lambda>clause. emitted_identifier (column clause)
                                      @ '' '' @ operator_str (operator clause)
                                      @ '' '' @ [CHR 0x27] @ clause_value clause @ [CHR 0x27])
                           (w # ws))
                | _ \<Rightarrow> [])
             @ (case order_by structure of
                  Val (c # col) \<Rightarrow>
                    '' ORDER BY '' @ emitted_identifier (c # col) @ '' '' @ direction
                | _ \<Rightarrow> [])
             @ (case limit structure of
                  Val n \<Rightarrow> if n \<noteq> 0 \<and> opn \<noteq> Val ''COUNT'' then '' LIMIT '' @ str_int n else []
                | _ \<Rightarrow> []))))
   \<and> (emitted_identifier name = CHR 0x22 # name @ [CHR 0x22]) = (CHR '' '' \<in> set name)
   \<and> (emitted_identifier name = name) = (CHR '' '' \<notin> set name)"
proof (intro conjI impI)
  assume a: "operation structure = opn \<and> opn \<noteq> Absent \<and> table structure = Some t
      \<and> (opn \<noteq> Val ''COUNT'' \<longrightarrow> columns structure = Some cs)"
  let ?p = "if opn = Val ''COUNT'' then ''SELECT COUNT(*)''
            else if cs = [] then ''SELECT *''
            else ''SELECT '' @ join '', '' (map emitted_identifier cs)"
  have p: "select_clause structure opn = Inr ?p"
  proof (cases "opn = Val ''COUNT''")
    case True
    then show ?thesis by (simp add: select_clause_def)
  next
    case False
    with a show ?thesis by (simp add: select_clause_emitted)
  qed
  have b: "build_sql_from_structure structure
           = Inr (add_limit structure opn
                    (add_order_by structure (add_where structure (?p @ '' FROM '' @ t))))"
    using a p by (auto simp add: build_sql_from_structure_def split: field.splits)
  obtain direction where
    d: "add_order_by structure (add_where structure (?p @ '' FROM '' @ t))
        = add_where structure (?p @ '' FROM '' @ t)
          @ (case order_by structure of
               Val (c # col) \<Rightarrow>
                 '' ORDER BY '' @ emitted_identifier (c # col) @ '' '' @ direction
             | _ \<Rightarrow> [])"
    using add_order_by_emitted by blast
  show "\<exists>direction.
      build_sql_from_structure structure =
        Inr ((if opn = Val ''COUNT'' then ''SELECT COUNT(*)''
              else if cs = [] then ''SELECT *''
              else ''SELECT '' @ join '', '' (map emitted_identifier cs))
             @ '' FROM '' @ t
             @ (case where_clauses structure of
                  Val (w # ws) \<Rightarrow>
                    '' WHERE '' @ join '' AND ''
                      (map (\<lambda>clause. emitted_identifier (column clause)
                                      @ '' '' @ operator_str (operator clause)
                                      @ '' '' @ [CHR 0x27] @ clause_value clause @ [CHR 0x27])
                           (w # ws))
                | _ \<Rightarrow> [])
             @ (case order_by structure of
                  Val (c # col) \<Rightarrow>
                    '' ORDER BY '' @ emitted_identifier (c # col) @ '' '' @ direction
                | _ \<Rightarrow> [])
             @ (case limit structure of
                  Val n \<Rightarrow> if n \<noteq> 0 \<and> opn \<noteq> Val ''COUNT'' then '' LIMIT '' @ str_int n else []
                | _ \<Rightarrow> []))"
    apply (rule exI [of _ direction])
    apply (simp only: b add_limit_emitted d)
    apply (simp only: add_where_emitted append_assoc)
    done
qed (simp_all add: emitted_identifier_def)

theorem identifiers_quoted_iff_space_witness:
  "\<exists>direction.
     build_sql_from_structure
       \<lparr> operation = Val ''SELECT'', table = Some ''my table'',
         columns = Some [''First Name'', ''Sex''],
         where_clauses = Val [\<lparr> column = ''Last Name'', operator = LIKE, clause_value = ''S%'' \<rparr>],
         order_by = Val ''Date of birth'', order_direction = Val DESC, limit = Null \<rparr>
     = Inr (''SELECT '' @ [CHR 0x22] @ ''First Name'' @ [CHR 0x22] @ '', Sex FROM my table WHERE ''
            @ [CHR 0x22] @ ''Last Name'' @ [CHR 0x22] @ '' LIKE '' @ [CHR 0x27] @ ''S%'' @ [CHR 0x27]
            @ '' ORDER BY '' @ [CHR 0x22] @ ''Date of birth'' @ [CHR 0x22] @ '' '' @ direction)"
  using identifiers_quoted_iff_space
          [of "\<lparr> operation = Val ''SELECT'', table = Some ''my table'',
                 columns = Some [''First Name'', ''Sex''],
                 where_clauses = Val [\<lparr> column = ''Last Name'', operator = LIKE, clause_value = ''S%'' \<rparr>],
                 order_by = Val ''Date of birth'', order_direction = Val DESC, limit = Null \<rparr>"
              "Val ''SELECT''" "''my table''" "[''First Name'', ''Sex'']", THEN conjunct1]
  by (simp add: emitted_identifier_def)

text \<open>
  C5 as stated fails for whitespace other than the space character: a column name
  with a tab is written without quotes.
\<close>

theorem tab_identifier_is_not_quoted:
  "is_whitespace (CHR 0x09)
   \<and> CHR 0x09 \<in> set [CHR ''a'', CHR 0x09, CHR ''b'']
   \<and> build_sql_from_structure
       \<lparr> operation = Val ''SELECT'', table = Some ''people'',
         columns = Some [[CHR ''a'', CHR 0x09, CHR ''b'']],
         where_clauses = Null, order_by = Null, order_direction = Null, limit = Null \<rparr>
     = Inr (''SELECT '' @ [CHR ''a'', CHR 0x09, CHR ''b''] @ '' FROM people'')"
  by (simp add: is_whitespace_def sql_defs)























section \<open>Properties of the result shaper\<close>

lemmas shaper_defs = transform_sql_to_viz_data_def single_column_def multiple_columns_def
  Counter_def

text \<open>
  C7. On the empty list, the empty tuple and \<^verbatim>\<open>None\<close> the shaper raises nothing
  and returns the empty list, which is not a dictionary, whereas each of the three
  tagged variants is one.
\<close>

theorem empty_input_gives_empty_list:
  "transform_sql_to_viz_data (PList []) = Inr (PList [])
   \<and> transform_sql_to_viz_data (PTuple []) = Inr (PList [])
   \<and> transform_sql_to_viz_data PNone = Inr (PList [])
   \<and> (\<forall>kvs. PList [] \<noteq> PDict kvs)"
  by (simp add: transform_sql_to_viz_data_def)

text \<open>
  C10. A non-empty input that is not a dictionary and whose first element is not a
  tuple makes the shaper return \<^verbatim>\<open>None\<close>, which is neither the empty list
  nor a dictionary. Every non-empty string is such an input, and so is every string
  that \<^verbatim>\<open>run_sql\<close> returns.
\<close>

theorem non_tuple_rows_give_None:
  "(py_list sql_result = Inr (r # rest) \<and> (\<forall>kvs. sql_result \<noteq> PDict kvs)
      \<and> (\<forall>t. r \<noteq> PTuple t) \<longrightarrow>
    transform_sql_to_viz_data sql_result = Inr PNone)
   \<and> (s \<noteq> [] \<longrightarrow> transform_sql_to_viz_data (PStr s) = Inr PNone)
   \<and> (run_sql db_run query = Inr out \<longrightarrow> transform_sql_to_viz_data (PStr out) = Inr PNone)
   \<and> PNone \<noteq> PList [] \<and> (\<forall>kvs. PNone \<noteq> PDict kvs)"
proof (intro conjI impI)
  assume a: "py_list sql_result = Inr (r # rest) \<and> (\<forall>kvs. sql_result \<noteq> PDict kvs)
      \<and> (\<forall>t. r \<noteq> PTuple t)"
  then have t: "truthy sql_result"
    by (cases sql_result) auto
  from a have n: "(case r # rest of
                     [] \<Rightarrow> Inl (IndexError ''list index out of range'')
                   | PTuple t # rest \<Rightarrow>
                       (if length t = 1 then single_column (r # rest)
                        else multiple_columns (length t) (r # rest))
                   | r # rest \<Rightarrow> Inr PNone) = Inr PNone"
    by (cases r) auto
  from a t n show "transform_sql_to_viz_data sql_result = Inr PNone"
    by (cases sql_result) (simp_all add: transform_sql_to_viz_data_def)
next
  assume "s \<noteq> []"
  then obtain c cs where "s = c # cs" by (cases s) auto
  then show "transform_sql_to_viz_data (PStr s) = Inr PNone"
    by (simp add: transform_sql_to_viz_data_def)
next
  assume "run_sql db_run query = Inr out"
  then have "out \<noteq> []"
    by (auto simp add: run_sql_def split: sum.splits if_splits)
  then obtain c cs where "out = c # cs" by (cases out) auto
  then show "transform_sql_to_viz_data (PStr out) = Inr PNone"
    by (simp add: transform_sql_to_viz_data_def)
qed simp_all

theorem non_tuple_rows_give_None_witness:
  "transform_sql_to_viz_data (PList [PInt 1, PInt 2]) = Inr PNone
   \<and> transform_sql_to_viz_data (PStr ''[(3,)]'') = Inr PNone
   \<and> transform_sql_to_viz_data (PStr ''Query returned no results.'') = Inr PNone"
proof -
  have 1: "transform_sql_to_viz_data (PList [PInt 1, PInt 2]) = Inr PNone"
    using non_tuple_rows_give_None [of "PList [PInt 1, PInt 2]" "PInt 1" "[PInt 2]", THEN conjunct1]
    by simp
  have 2: "transform_sql_to_viz_data (PStr ''[(3,)]'') = Inr PNone"
    using non_tuple_rows_give_None [of _ _ _ "''[(3,)]''", THEN conjunct2, THEN conjunct1]
    by simp
  have r: "run_sql (\<lambda>q. Inr []) ''SELECT * FROM people'' = Inr ''Query returned no results.''"
    by (simp add: run_sql_def)
  have 3: "transform_sql_to_viz_data (PStr ''Query returned no results.'') = Inr PNone"
    using non_tuple_rows_give_None
            [of _ _ _ _ "\<lambda>q. Inr []" "''SELECT * FROM people''" "''Query returned no results.''",
             THEN conjunct2, THEN conjunct2, THEN conjunct1] r
    by blast
  from 1 2 3 show ?thesis by simp
qed

lemma keys_count_element:
  "map fst (count_element acc x)
   = (if x \<in> set (map fst acc) then map fst acc else map fst acc @ [x])"
  by (induction acc x rule: count_element.induct) auto

lemma sum_count_element:
  "sum_list (map snd (count_element acc x)) = Suc (sum_list (map snd acc))"
  by (induction acc x rule: count_element.induct) auto

lemma map_of_count_element:
  "map_of (count_element acc x)
   = (map_of acc)(x \<mapsto> (case map_of acc x of None \<Rightarrow> 1 | Some n \<Rightarrow> n + 1))"
  by (induction acc x rule: count_element.induct) (auto simp add: fun_eq_iff)

lemma keys_counted: "set (map fst (foldl count_element [] xs)) = set xs"
  by (induction xs rule: rev_induct) (auto simp add: keys_count_element)

lemma keys_distinct: "distinct (map fst (foldl count_element [] xs))"
  by (induction xs rule: rev_induct) (auto simp add: keys_count_element)

lemma sum_counted: "sum_list (map snd (foldl count_element [] xs)) = length xs"
  by (induction xs rule: rev_induct) (auto simp add: sum_count_element)

lemma map_of_counted:
  "map_of (foldl count_element [] xs) k
   = (if k \<in> set xs then Some (count_list xs k) else None)"
  by (induction xs rule: rev_induct) (auto simp add: map_of_count_element)

lemma first_index_less: "a \<in> set xs \<Longrightarrow> first_index xs a < length xs"
  unfolding first_index_def by (induction xs) auto

lemma first_index_snoc_old: "a \<in> set xs \<Longrightarrow> first_index (xs @ [x]) a = first_index xs a"
  unfolding first_index_def by (induction xs) auto

lemma first_index_snoc_new: "x \<notin> set xs \<Longrightarrow> first_index (xs @ [x]) x = length xs"
  unfolding first_index_def by (induction xs) auto

lemma keys_first_seen:
  "sorted_wrt (\<lambda>a b. first_index xs a < first_index xs b) (map fst (foldl count_element [] xs))"
proof (induction xs rule: rev_induct)
  case Nil
  then show ?case by simp
next
  case (snoc x xs)
  let ?K = "map fst (foldl count_element [] xs)"
  have K: "set ?K = set xs" by (rule keys_counted)
  have old: "sorted_wrt (\<lambda>a b. first_index (xs @ [x]) a < first_index (xs @ [x]) b) ?K"
    using snoc.IH
  proof (rule sorted_wrt_mono_rel [rotated])
    fix a b
    assume "a \<in> set ?K" "b \<in> set ?K" "first_index xs a < first_index xs b"
    then show "first_index (xs @ [x]) a < first_index (xs @ [x]) b"
      by (simp only: K first_index_snoc_old)
  qed
  show ?case
  proof (cases "x \<in> set xs")
    case True
    with old K show ?thesis by (simp add: keys_count_element)
  next
    case False
    have "\<forall>a \<in> set ?K. first_index (xs @ [x]) a < first_index (xs @ [x]) x"
      using False K by (simp add: first_index_snoc_old first_index_snoc_new first_index_less)
    with old False K show ?thesis
      by (simp add: keys_count_element sorted_wrt_append)
  qed
qed

lemma count_at_index:
  assumes "i < length (foldl count_element [] xs)"
  shows "snd (foldl count_element [] xs ! i)
         = count_list xs (fst (foldl count_element [] xs ! i))"
proof -
  let ?C = "foldl count_element [] xs"
  have m: "(fst (?C ! i), snd (?C ! i)) \<in> set ?C" using assms by simp
  have "map_of ?C (fst (?C ! i)) = Some (snd (?C ! i))"
    using m keys_distinct [of xs] by (simp only: map_of_eq_Some_iff)
  moreover have "fst (?C ! i) \<in> set (map fst ?C)"
    using assms by simp
  then have "fst (?C ! i) \<in> set xs"
    by (simp only: keys_counted)
  ultimately show ?thesis by (simp add: map_of_counted)
qed

lemma int_sum_snd:
  "sum_list (map (\<lambda>kv. int (snd kv)) kvs) = int (sum_list (map snd kvs))"
  by (induction kvs) auto

lemma first_elements: "map_raise (\<lambda>item. subscript item 0) (map (\<lambda>v. PTuple [v]) vs) = Inr vs"
  by (induction vs) auto

text \<open>
  C8. For rows that are one-element tuples of hashable values, the first a string,
  the shaper returns the categorical aggregate: \<open>total\<close> is the number of rows
  and the sum of \<open>counts\<close>; \<open>categories\<close> and \<open>counts\<close> have one length; the
  categories are the distinct values of the rows, ordered by first occurrence; each
  count is the number of occurrences of its category.
\<close>

theorem categorical_aggregate_invariants:
  assumes "vals = PStr s # rest" and "\<forall>v \<in> set vals. hashable v"
  shows "\<exists>categories counts.
     transform_sql_to_viz_data (PList (map (\<lambda>v. PTuple [v]) vals))
       = Inr (PDict [(''categories'', PList categories),
                     (''counts'', PList (map PInt counts)),
                     (''total'', PInt (int (length (map (\<lambda>v. PTuple [v]) vals)))),
                     (''raw_values'', PList vals)])
     \<and> sum_list counts = int (length (map (\<lambda>v. PTuple [v]) vals))
     \<and> length categories = length counts
     \<and> distinct categories
     \<and> set categories = set vals
     \<and> sorted_wrt (\<lambda>a b. first_index vals a < first_index vals b) categories
     \<and> (\<forall>i < length categories. counts ! i = int (count_list vals (categories ! i)))"
proof -
  let ?C = "foldl count_element [] vals"
  let ?rows = "map (\<lambda>v. PTuple [v]) vals"
  have c: "Counter vals = Inr ?C"
    using assms(2) by (simp add: Counter_def)
  have f: "map_raise (\<lambda>item. subscript item 0) ?rows = Inr vals"
    by (rule first_elements)
  have sc: "single_column ?rows
        = Inr (PDict [(''categories'', PList (map fst ?C)),
                      (''counts'', PList (map (\<lambda>kv. PInt (int (snd kv))) ?C)),
                      (''total'', PInt (int (length vals))),
                      (''raw_values'', PList vals)])"
    unfolding single_column_def f using assms(1) c by simp
  have r: "?rows = PTuple [PStr s] # map (\<lambda>v. PTuple [v]) rest"
    using assms(1) by simp
  have t: "transform_sql_to_viz_data (PList ?rows) = single_column ?rows"
    by (simp add: transform_sql_to_viz_data_def r)
  have m: "map (\<lambda>kv. PInt (int (snd kv))) ?C = map PInt (map (\<lambda>kv. int (snd kv)) ?C)"
    by simp
  have s: "sum_list (map (\<lambda>kv. int (snd kv)) ?C) = int (length vals)"
    by (simp only: int_sum_snd sum_counted)
  show ?thesis
    apply (rule exI [of _ "map fst ?C"])
    apply (rule exI [of _ "map (\<lambda>kv. int (snd kv)) ?C"])
    apply (intro conjI)
          apply (simp only: t sc m length_map)
         apply (simp add: s)
        apply simp
       apply (rule keys_distinct)
      apply (rule keys_counted)
     apply (rule keys_first_seen)
    apply (simp add: count_at_index)
    done
qed

theorem categorical_aggregate_invariants_witness:
  "transform_sql_to_viz_data
     (PList [PTuple [PStr ''Male''], PTuple [PStr ''Female''], PTuple [PStr ''Male'']])
   = Inr (PDict [(''categories'', PList [PStr ''Male'', PStr ''Female'']),
                 (''counts'', PList [PInt 2, PInt 1]),
                 (''total'', PInt 3),
                 (''raw_values'', PList [PStr ''Male'', PStr ''Female'', PStr ''Male''])])
   \<and> (\<exists>categories counts.
     transform_sql_to_viz_data
       (PList [PTuple [PStr ''Male''], PTuple [PStr ''Female''], PTuple [PStr ''Male'']])
       = Inr (PDict [(''categories'', PList categories),
                     (''counts'', PList (map PInt counts)),
                     (''total'', PInt 3),
                     (''raw_values'', PList [PStr ''Male'', PStr ''Female'', PStr ''Male''])])
     \<and> sum_list counts = 3
     \<and> length categories = length counts
     \<and> distinct categories
     \<and> set categories = {PStr ''Male'', PStr ''Female''})"
proof -
  have e: "transform_sql_to_viz_data
     (PList [PTuple [PStr ''Male''], PTuple [PStr ''Female''], PTuple [PStr ''Male'']])
   = Inr (PDict [(''categories'', PList [PStr ''Male'', PStr ''Female'']),
                 (''counts'', PList [PInt 2, PInt 1]),
                 (''total'', PInt 3),
                 (''raw_values'', PList [PStr ''Male'', PStr ''Female'', PStr ''Male''])])"
    by (simp add: shaper_defs)
  have h: "\<forall>v \<in> set [PStr ''Male'', PStr ''Female'', PStr ''Male'']. hashable v"
    by simp
  from categorical_aggregate_invariants
         [of "[PStr ''Male'', PStr ''Female'', PStr ''Male'']" "''Male''"
             "[PStr ''Female'', PStr ''Male'']", OF refl h]
  obtain categories counts where
    "transform_sql_to_viz_data
       (PList (map (\<lambda>v. PTuple [v]) [PStr ''Male'', PStr ''Female'', PStr ''Male'']))
       = Inr (PDict [(''categories'', PList categories),
                     (''counts'', PList (map PInt counts)),
                     (''total'', PInt (int (length (map (\<lambda>v. PTuple [v])
                                   [PStr ''Male'', PStr ''Female'', PStr ''Male''])))),
                     (''raw_values'', PList [PStr ''Male'', PStr ''Female'', PStr ''Male''])])"
    and "sum_list counts = int (length (map (\<lambda>v. PTuple [v])
                                   [PStr ''Male'', PStr ''Female'', PStr ''Male'']))"
    and "length categories = length counts"
    and "distinct categories"
    and "set categories = set [PStr ''Male'', PStr ''Female'', PStr ''Male'']"
    by blast
  then have "transform_sql_to_viz_data
       (PList [PTuple [PStr ''Male''], PTuple [PStr ''Female''], PTuple [PStr ''Male'']])
       = Inr (PDict [(''categories'', PList categories),
                     (''counts'', PList (map PInt counts)),
                     (''total'', PInt 3),
                     (''raw_values'', PList [PStr ''Male'', PStr ''Female'', PStr ''Male''])])
     \<and> sum_list counts = 3
     \<and> length categories = length counts
     \<and> distinct categories
     \<and> set categories = {PStr ''Male'', PStr ''Female''}"
    by auto
  then have "\<exists>categories counts.
     transform_sql_to_viz_data
       (PList [PTuple [PStr ''Male''], PTuple [PStr ''Female''], PTuple [PStr ''Male'']])
       = Inr (PDict [(''categories'', PList categories),
                     (''counts'', PList (map PInt counts)),
                     (''total'', PInt 3),
                     (''raw_values'', PList [PStr ''Male'', PStr ''Female'', PStr ''Male''])])
     \<and> sum_list counts = 3
     \<and> length categories = length counts
     \<and> distinct categories
     \<and> set categories = {PStr ''Male'', PStr ''Female''}"
    by blast
  with e show ?thesis by blast
qed

end
